theory Spec2Isabelle
  imports Complex_Main
begin

section \<open>The RAG API service (rag\_api.py)\<close>

text \<open>
  The module keeps one global dictionary \<open>stats\<close> and exposes three endpoints:
  \<open>root\<close>, \<open>health_check\<close> and \<open>query_endpoint\<close>. The embedding follows the source
  line by line. Python's \<open>int\<close> is \<open>int\<close>; Python's \<open>float\<close> is idealised as \<open>real\<close>
  (no rounding); a \<open>str\<close> is a \<open>string\<close>, one element per character, so \<open>length\<close> is
  Python's \<open>len\<close>. Exceptions are values of the type \<open>exn\<close>, and a function that may
  raise returns \<open>exn + 'a\<close>. The mutable global is passed in and out explicitly.
\<close>

subsection \<open>Data model\<close>

text \<open>The global dictionary \<open>stats\<close> with its three fixed keys.\<close>

record stats =
  total_queries :: int
  total_latency_ms :: real
  start_time :: real

text \<open>The pydantic models, field by field.\<close>

record QueryRequest =
  query :: string
  top_k :: int
  "method" :: string

record Document =
  doc_id :: string
  "text" :: string
  score :: real
  rank :: int

record QueryResponse =
  query :: string
  answer :: string
  documents :: "Document list"
  "method" :: string
  latency_ms :: real
  timestamp :: string

record HealthResponse =
  status :: string
  uptime_seconds :: real
  total_queries :: int
  avg_latency_ms :: real

text \<open>
  The exceptions the module meets: FastAPI's \<open>HTTPException(status_code, detail)\<close>,
  pydantic's validation error (with the names of the offending fields), and any other
  subclass of \<open>Exception\<close>, kept with its message.
\<close>

datatype exn =
  HTTPException int string
  | ValidationError "string list"
  | Exception string

subsection \<open>The environment and the process state\<close>

text \<open>
  What the module reads from outside itself. \<open>clock env n\<close> is the value that the
  \<open>n\<close>-th call of \<open>time.time()\<close> in the process returns; nothing is assumed about it
  (the wall clock may be set back between two calls). \<open>isoformat_now\<close> is the value of
  \<open>datetime.now().isoformat()\<close>, and \<open>str env e\<close> is Python's \<open>str(e)\<close>, which for
  the framework's exception classes is defined outside this module. Python may raise at
  any call inside the \<open>try\<close> block: \<open>Document_raises env i\<close> is the exception raised
  while the \<open>i\<close>-th document is built, and \<open>answer_raises env\<close> the one raised while the
  answer is generated, if any.
\<close>

record env =
  clock :: "nat \<Rightarrow> real"
  isoformat_now :: string
  str :: "exn \<Rightarrow> string"
  Document_raises :: "int \<Rightarrow> exn option"
  answer_raises :: "exn option"

text \<open>
  The state of the process: the global \<open>stats\<close>, and the number of calls of
  \<open>time.time()\<close> made so far, which tells whether a handler has read the clock.
\<close>

record state =
  stats :: stats
  clock_reads :: nat

definition time_time :: "env \<Rightarrow> state \<Rightarrow> real \<times> state" where
  "time_time env s = (clock env (clock_reads s), s\<lparr>clock_reads := Suc (clock_reads s)\<rparr>)"

text \<open>Module initialisation (lines 28 to 32): the first clock reading is \<open>start_time\<close>.\<close>

definition init :: "env \<Rightarrow> state" where
  "init env =
     (let s0 = \<lparr>stats = \<lparr>stats.total_queries = 0, total_latency_ms = 0, start_time = 0\<rparr>,
                clock_reads = 0\<rparr>;
          (t, s1) = time_time env s0
      in s1\<lparr>stats := \<lparr>stats.total_queries = 0, total_latency_ms = 0, start_time = t\<rparr>\<rparr>)"

subsection \<open>Formatting and iteration\<close>

text \<open>Python's \<open>str(i)\<close> for an integer, as the f-strings use it: decimal, with a sign.\<close>

definition digit :: "nat \<Rightarrow> char" where
  "digit d = ''0123456789'' ! d"

fun str_nat :: "nat \<Rightarrow> string" where
  "str_nat n = (if n < 10 then [digit n] else str_nat (n div 10) @ [digit (n mod 10)])"

declare str_nat.simps [simp del]

definition str_int :: "int \<Rightarrow> string" where
  "str_int i = (if i < 0 then ''-'' @ str_nat (nat (- i)) else str_nat (nat i))"

text \<open>\<open>range(n)\<close>: the integers \<open>0, \<dots>, n - 1\<close>, none when \<open>n \<le> 0\<close>.\<close>

definition range_py :: "int \<Rightarrow> int list" where
  "range_py n = [0..n - 1]"

text \<open>
  A list comprehension over a constructor that may raise: the elements are built from
  left to right and the first exception ends the comprehension.
\<close>

fun comprehension :: "('a \<Rightarrow> exn + 'b) \<Rightarrow> 'a list \<Rightarrow> exn + 'b list" where
  "comprehension f [] = Inr []"
| "comprehension f (x # xs) =
     (case f x of
        Inl e \<Rightarrow> Inl e
      | Inr y \<Rightarrow> (case comprehension f xs of Inl e \<Rightarrow> Inl e | Inr ys \<Rightarrow> Inr (y # ys)))"

subsection \<open>Request validation (class QueryRequest)\<close>

text \<open>
  The constructor of \<open>QueryRequest\<close> with the constraints of its \<open>Field\<close>s: \<open>query\<close>
  is required, \<open>1 \<le> len(query) \<le> 500\<close>; \<open>top_k\<close> defaults to 10, \<open>1 \<le> top_k \<le> 100\<close>;
  \<open>method\<close> defaults to \<open>"hybrid"\<close> and is not constrained here. An absent field is
  \<open>None\<close>. The framework runs this before it calls the handler.
\<close>

definition QueryRequest_errors :: "string option \<Rightarrow> int \<Rightarrow> string list" where
  "QueryRequest_errors q k =
     (case q of
        None \<Rightarrow> [''query'']
      | Some v \<Rightarrow> if length v < 1 \<or> 500 < length v then [''query''] else [])
     @ (if k < 1 \<or> 100 < k then [''top_k''] else [])"

definition QueryRequest_init ::
  "string option \<Rightarrow> int option \<Rightarrow> string option \<Rightarrow> exn + QueryRequest" where
  "QueryRequest_init q k m =
     (let k' = (case k of None \<Rightarrow> 10 | Some v \<Rightarrow> v);
          m' = (case m of None \<Rightarrow> ''hybrid'' | Some v \<Rightarrow> v);
          errors = QueryRequest_errors q k'
      in case q of
           Some q' \<Rightarrow>
             if errors = [] then Inr \<lparr>QueryRequest.query = q', top_k = k', QueryRequest.method = m'\<rparr>
             else Inl (ValidationError errors)
         | None \<Rightarrow> Inl (ValidationError errors))"

subsection \<open>The endpoints\<close>

definition root :: "(string \<times> string) list" where
  "root = [(''message'', ''RAG System API''), (''version'', ''1.0.0''), (''docs'', ''/docs'')]"

definition health_check :: "env \<Rightarrow> state \<Rightarrow> HealthResponse \<times> state" where
  "health_check env s =
     (let (now, s1) = time_time env s;
          uptime = now - start_time (stats s1);
          avg_latency =
            (if stats.total_queries (stats s1) > 0
             then total_latency_ms (stats s1) / real_of_int (stats.total_queries (stats s1))
             else 0)
      in (\<lparr>status = ''healthy'',
           uptime_seconds = uptime,
           total_queries = stats.total_queries (stats s1),
           avg_latency_ms = avg_latency\<rparr>, s1))"

text \<open>
  One element of the comprehension at lines 113 to 121: the document for index \<open>i\<close>,
  and its construction, which may raise.
\<close>

definition sample_Document :: "int \<Rightarrow> Document" where
  "sample_Document i =
     \<lparr>doc_id = ''doc'' @ str_int i,
      text = ''Sample document '' @ str_int i,
      score = 9 / 10 - real_of_int i * (1 / 10),
      rank = i + 1\<rparr>"

definition build_Document :: "env \<Rightarrow> int \<Rightarrow> exn + Document" where
  "build_Document env i =
     (case Document_raises env i of Some e \<Rightarrow> Inl e | None \<Rightarrow> Inr (sample_Document i))"

text \<open>
  The body of the \<open>try\<close> block (lines 107 to 139), given the \<open>start_time\<close> read before
  it. An exception leaves the block with the state as it is at that point.
\<close>

definition try_block ::
  "env \<Rightarrow> QueryRequest \<Rightarrow> real \<Rightarrow> state \<Rightarrow> (exn + QueryResponse) \<times> state" where
  "try_block env request start s =
     (if QueryRequest.method request \<notin> set [''sparse'', ''dense'', ''hybrid'']
      then (Inl (HTTPException 400 ''Invalid method. Use: sparse, dense, or hybrid''), s)
      else
        case comprehension (build_Document env) (range_py (top_k request)) of
          Inl e \<Rightarrow> (Inl e, s)
        | Inr docs \<Rightarrow>
            (case answer_raises env of
               Some e \<Rightarrow> (Inl e, s)
             | None \<Rightarrow>
                 (let answer' = ''Sample answer for: '' @ QueryRequest.query request;
                      (now, s1) = time_time env s;
                      latency = (now - start) * 1000;
                      s2 = s1\<lparr>stats := (stats s1)
                             \<lparr>stats.total_queries := stats.total_queries (stats s1) + 1\<rparr>\<rparr>;
                      s3 = s2\<lparr>stats := (stats s2)
                             \<lparr>total_latency_ms := total_latency_ms (stats s2) + latency\<rparr>\<rparr>
                  in (Inr \<lparr>QueryResponse.query = QueryRequest.query request,
                           answer = answer',
                           documents = docs,
                           QueryResponse.method = QueryRequest.method request,
                           latency_ms = latency,
                           timestamp = isoformat_now env\<rparr>, s3))))"

text \<open>
  The handler: \<open>start_time\<close> is read first (line 104), then the \<open>try\<close> block runs, and
  \<open>except Exception\<close> (lines 141 and 142) turns every exception that leaves the block,
  an \<open>HTTPException\<close> included, into an \<open>HTTPException\<close> with status 500.
\<close>

definition query_endpoint ::
  "env \<Rightarrow> QueryRequest \<Rightarrow> state \<Rightarrow> (exn + QueryResponse) \<times> state" where
  "query_endpoint env request s =
     (let (start, s1) = time_time env s
      in case try_block env request start s1 of
           (Inl e, s2) \<Rightarrow>
             (Inl (HTTPException 500 (''Internal server error: '' @ str env e)), s2)
         | (Inr response, s2) \<Rightarrow> (Inr response, s2))"

text \<open>
  The route \<open>POST /query\<close>: the body is validated by \<open>QueryRequest\<close>; only a valid
  request reaches the handler.
\<close>

definition post_query ::
  "env \<Rightarrow> string option \<Rightarrow> int option \<Rightarrow> string option \<Rightarrow> state
     \<Rightarrow> (exn + QueryResponse) \<times> state" where
  "post_query env q k m s =
     (case QueryRequest_init q k m of
        Inl e \<Rightarrow> (Inl e, s)
      | Inr request \<Rightarrow> query_endpoint env request s)"

subsection \<open>The service as a whole\<close>

datatype operation =
  GET_root
  | GET_health
  | POST_query "string option" "int option" "string option"

fun serve :: "env \<Rightarrow> operation \<Rightarrow> state \<Rightarrow> state" where
  "serve env GET_root s = s"
| "serve env GET_health s = snd (health_check env s)"
| "serve env (POST_query q k m) s = snd (post_query env q k m s)"

fun run :: "env \<Rightarrow> operation list \<Rightarrow> state \<Rightarrow> state" where
  "run env [] s = s"
| "run env (x # xs) s = run env xs (serve env x s)"

subsection \<open>Sample inputs\<close>

text \<open>
  Starlette renders an \<open>HTTPException\<close> as \<open>"{status_code}: {detail}"\<close>; other
  exceptions render as their message.
\<close>

fun str_exn :: "exn \<Rightarrow> string" where
  "str_exn (HTTPException c d) = str_int c @ '': '' @ d"
| "str_exn (ValidationError fs) = concat fs"
| "str_exn (Exception m) = m"

text \<open>An environment in which nothing raises and the clock advances by one second per reading.\<close>

definition env0 :: env where
  "env0 = \<lparr>clock = (\<lambda>n. real n), isoformat_now = ''2024-01-01T00:00:00'',
           str = str_exn, Document_raises = (\<lambda>i. None), answer_raises = None\<rparr>"

text \<open>The same, with a clock that is set back by one second at every reading.\<close>

definition env_back :: env where
  "env_back = env0\<lparr>clock := (\<lambda>n. 100 - real n)\<rparr>"

text \<open>Environments in which building document 1, or generating the answer, raises.\<close>

definition env_doc_fault :: env where
  "env_doc_fault =
     env0\<lparr>Document_raises := (\<lambda>i. if i = 1 then Some (Exception ''out of memory'') else None)\<rparr>"

definition env_answer_fault :: env where
  "env_answer_fault = env0\<lparr>answer_raises := Some (Exception ''generation failed'')\<rparr>"

definition request3 :: QueryRequest where
  "request3 = \<lparr>QueryRequest.query = ''what is rag?'', top_k = 3, QueryRequest.method = ''hybrid''\<rparr>"

definition request_fuzzy :: QueryRequest where
  "request_fuzzy = \<lparr>QueryRequest.query = ''what is rag?'', top_k = 3, QueryRequest.method = ''fuzzy''\<rparr>"

section \<open>Properties of the embedding\<close>

subsection \<open>Comprehensions, ranges and formatting\<close>

lemma comprehension_Inl:
  "x \<in> set xs \<Longrightarrow> f x = Inl e \<Longrightarrow> \<exists>e'. comprehension f xs = Inl e'"
  by (induction xs) (auto split: sum.splits)

lemma comprehension_total:
  "\<forall>x \<in> set xs. f x = Inr (g x) \<Longrightarrow> comprehension f xs = Inr (map g xs)"
  by (induction xs) auto

lemma build_Document_Inr:
  "build_Document env i = Inr d \<Longrightarrow> d = sample_Document i"
  by (auto simp: build_Document_def split: option.splits)

lemma comprehension_build:
  "comprehension (build_Document env) xs = Inr ys \<Longrightarrow> ys = map sample_Document xs"
  by (induction xs arbitrary: ys) (auto split: sum.splits dest: build_Document_Inr)

lemma length_range_py: "length (range_py n) = nat n"
  by (simp add: range_py_def)

lemma nth_range_py: "i < nat n \<Longrightarrow> range_py n ! i = int i"
  by (simp add: range_py_def)

lemma str_int_int: "str_int (int n) = str_nat n"
  by (simp add: str_int_def)

lemma try_block_Inl:
  "try_block env request start s = (Inl e, s') \<Longrightarrow> s' = s"
  unfolding try_block_def time_time_def Let_def
  by (simp split: if_splits sum.splits option.splits)

lemma try_block_Inr_method:
  "try_block env request start s = (Inr resp, s') \<Longrightarrow>
   QueryRequest.method request \<in> set [''sparse'', ''dense'', ''hybrid'']"
  unfolding try_block_def
  by (rule ccontr) simp

lemma try_block_invalid:
  assumes "QueryRequest.method request \<notin> set [''sparse'', ''dense'', ''hybrid'']"
  shows "try_block env request start s =
           (Inl (HTTPException 400 ''Invalid method. Use: sparse, dense, or hybrid''), s)"
  using assms by (simp only: try_block_def not_False_eq_True if_True)

lemma try_block_valid:
  assumes "QueryRequest.method request \<in> set [''sparse'', ''dense'', ''hybrid'']"
  shows "try_block env request start s =
     (case comprehension (build_Document env) (range_py (top_k request)) of
          Inl e \<Rightarrow> (Inl e, s)
        | Inr docs \<Rightarrow>
            (case answer_raises env of
               Some e \<Rightarrow> (Inl e, s)
             | None \<Rightarrow>
                 (Inr \<lparr>QueryResponse.query = QueryRequest.query request,
                           answer = ''Sample answer for: '' @ QueryRequest.query request,
                           documents = docs,
                           QueryResponse.method = QueryRequest.method request,
                           latency_ms = (clock env (clock_reads s) - start) * 1000,
                           timestamp = isoformat_now env\<rparr>,
                  s\<lparr>clock_reads := Suc (clock_reads s),
                    stats := (stats s)\<lparr>stats.total_queries := stats.total_queries (stats s) + 1,
                       total_latency_ms := total_latency_ms (stats s)
                          + (clock env (clock_reads s) - start) * 1000\<rparr>\<rparr>)))"
proof -
  have "\<not> QueryRequest.method request \<notin> set [''sparse'', ''dense'', ''hybrid'']"
    using assms by (simp only: not_not)
  then show ?thesis
    unfolding try_block_def time_time_def
    by (simp only: if_False Let_def prod.case)
       (simp split: sum.splits option.splits)
qed

lemma try_block_Inr:
  assumes "try_block env request start s = (Inr resp, s')"
  shows "documents resp = map sample_Document (range_py (top_k request))
       \<and> latency_ms resp = (clock env (clock_reads s) - start) * 1000
       \<and> stats s' = (stats s)\<lparr>stats.total_queries := stats.total_queries (stats s) + 1,
                        total_latency_ms := total_latency_ms (stats s) + latency_ms resp\<rparr>
       \<and> clock_reads s' = Suc (clock_reads s)"
proof -
  have m: "QueryRequest.method request \<in> set [''sparse'', ''dense'', ''hybrid'']"
    using assms by (rule try_block_Inr_method)
  note tb = assms[unfolded try_block_valid[OF m]]
  obtain docs where c: "comprehension (build_Document env) (range_py (top_k request)) = Inr docs"
    using tb
    by (cases "comprehension (build_Document env) (range_py (top_k request))") simp_all
  have a: "answer_raises env = None"
    using tb c by (cases "answer_raises env") simp_all
  have d: "docs = map sample_Document (range_py (top_k request))"
    using c by (rule comprehension_build)
  show ?thesis
    using tb c a d by auto
qed

lemma query_endpoint_unfold:
  "query_endpoint env request s =
     (case try_block env request (clock env (clock_reads s)) (s\<lparr>clock_reads := Suc (clock_reads s)\<rparr>) of
        (Inl e, s2) \<Rightarrow> (Inl (HTTPException 500 (''Internal server error: '' @ str env e)), s2)
      | (Inr response, s2) \<Rightarrow> (Inr response, s2))"
  by (simp add: query_endpoint_def time_time_def)

lemma query_endpoint_Inr:
  assumes "query_endpoint env request s = (Inr resp, s')"
  shows "QueryRequest.method request \<in> set [''sparse'', ''dense'', ''hybrid'']
       \<and> documents resp = map sample_Document (range_py (top_k request))
       \<and> latency_ms resp = (clock env (Suc (clock_reads s)) - clock env (clock_reads s)) * 1000
       \<and> stats s' = (stats s)\<lparr>stats.total_queries := stats.total_queries (stats s) + 1,
                        total_latency_ms := total_latency_ms (stats s) + latency_ms resp\<rparr>
       \<and> clock_reads s' = Suc (Suc (clock_reads s))"
proof -
  let ?s1 = "s\<lparr>clock_reads := Suc (clock_reads s)\<rparr>"
  have tb: "try_block env request (clock env (clock_reads s)) ?s1 = (Inr resp, s')"
    using assms unfolding query_endpoint_unfold
    by (simp split: prod.splits sum.splits)
  show ?thesis
    using try_block_Inr[OF tb] try_block_Inr_method[OF tb] by simp
qed

lemma query_endpoint_Inl:
  assumes "query_endpoint env request s = (Inl e, s')"
  shows "(\<exists>d. e = HTTPException 500 d) \<and> stats s' = stats s
         \<and> clock_reads s' = Suc (clock_reads s)"
proof -
  let ?s1 = "s\<lparr>clock_reads := Suc (clock_reads s)\<rparr>"
  obtain r s2 where tb: "try_block env request (clock env (clock_reads s)) ?s1 = (r, s2)"
    by (cases "try_block env request (clock env (clock_reads s)) ?s1") blast
  show ?thesis
  proof (cases r)
    case (Inl e0)
    with tb have "s2 = ?s1" using try_block_Inl by blast
    with assms tb Inl show ?thesis
      unfolding query_endpoint_unfold by auto
  next
    case (Inr resp)
    with assms tb show ?thesis
      unfolding query_endpoint_unfold by simp
  qed
qed

lemma query_endpoint_invalid_method:
  assumes "QueryRequest.method request \<notin> set [''sparse'', ''dense'', ''hybrid'']"
  shows "query_endpoint env request s =
           (Inl (HTTPException 500 (''Internal server error: '' @
              str env (HTTPException 400 ''Invalid method. Use: sparse, dense, or hybrid''))),
            s\<lparr>clock_reads := Suc (clock_reads s)\<rparr>)"
  unfolding query_endpoint_unfold try_block_invalid[OF assms] by simp

lemma query_endpoint_returns:
  assumes "QueryRequest.method request \<in> set [''sparse'', ''dense'', ''hybrid'']"
    and "\<forall>i. Document_raises env i = None"
    and "answer_raises env = None"
  shows "\<exists>resp s'. query_endpoint env request s = (Inr resp, s')"
proof -
  have "comprehension (build_Document env) (range_py (top_k request))
          = Inr (map sample_Document (range_py (top_k request)))"
    by (rule comprehension_total) (simp add: build_Document_def assms(2))
  then show ?thesis
    unfolding query_endpoint_unfold try_block_valid[OF assms(1)]
    using assms(3) by simp
qed

lemma query_endpoint_valid_unfold:
  assumes "QueryRequest.method request \<in> set [''sparse'', ''dense'', ''hybrid'']"
  shows "fst (query_endpoint env request s) =
     (case comprehension (build_Document env) (range_py (top_k request)) of
          Inl e \<Rightarrow> Inl (HTTPException 500 (''Internal server error: '' @ str env e))
        | Inr docs \<Rightarrow>
            (case answer_raises env of
               Some e \<Rightarrow> Inl (HTTPException 500 (''Internal server error: '' @ str env e))
             | None \<Rightarrow>
                 Inr \<lparr>QueryResponse.query = QueryRequest.query request,
                           answer = ''Sample answer for: '' @ QueryRequest.query request,
                           documents = docs,
                           QueryResponse.method = QueryRequest.method request,
                           latency_ms = (clock env (Suc (clock_reads s)) - clock env (clock_reads s)) * 1000,
                           timestamp = isoformat_now env\<rparr>))"
  unfolding query_endpoint_unfold try_block_valid[OF assms]
  by (simp split: sum.splits option.splits)

lemma query_endpoint_raises:
  assumes "(\<exists>i \<in> set (range_py (top_k request)). Document_raises env i \<noteq> None)
           \<or> answer_raises env \<noteq> None"
  shows "\<exists>e. fst (query_endpoint env request s) = Inl e"
proof (cases "QueryRequest.method request \<in> set [''sparse'', ''dense'', ''hybrid'']")
  case False
  have "fst (query_endpoint env request s) =
          Inl (HTTPException 500 (''Internal server error: '' @
              str env (HTTPException 400 ''Invalid method. Use: sparse, dense, or hybrid'')))"
    by (simp only: query_endpoint_invalid_method[OF False] fst_conv)
  then show ?thesis by (rule exI)
next
  case True
  note u = query_endpoint_valid_unfold[OF True, of env s]
  from assms show ?thesis
  proof (rule disjE)
    assume "\<exists>i \<in> set (range_py (top_k request)). Document_raises env i \<noteq> None"
    then obtain i where i: "i \<in> set (range_py (top_k request))" "Document_raises env i \<noteq> None"
      by (rule bexE)
    from i(2) obtain e where "Document_raises env i = Some e"
      by (cases "Document_raises env i") simp_all
    then have "build_Document env i = Inl e"
      by (simp add: build_Document_def)
    from comprehension_Inl[where f = "build_Document env", OF i(1) this] obtain e' where
      "comprehension (build_Document env) (range_py (top_k request)) = Inl e'"
      by (rule exE)
    then show ?thesis
      by (simp only: u sum.case) (rule exI, rule refl)
  next
    assume "answer_raises env \<noteq> None"
    then obtain e where a: "answer_raises env = Some e"
      by (cases "answer_raises env") simp_all
    show ?thesis
    proof (cases "comprehension (build_Document env) (range_py (top_k request))")
      case (Inl e')
      then show ?thesis by (simp only: u sum.case) (rule exI, rule refl)
    next
      case (Inr docs)
      then show ?thesis by (simp only: u a sum.case option.case) (rule exI, rule refl)
    qed
  qed
qed

lemma ranks_range_py: "map (\<lambda>i. rank (sample_Document i)) (range_py n) = [1..int (length (range_py n))]"
proof (rule nth_equalityI)
  show "length (map (\<lambda>i. rank (sample_Document i)) (range_py n)) = length [1..int (length (range_py n))]"
    by (simp add: range_py_def)
next
  fix i assume "i < length (map (\<lambda>i. rank (sample_Document i)) (range_py n))"
  then have i: "i < nat n" by (simp add: range_py_def)
  then show "map (\<lambda>i. rank (sample_Document i)) (range_py n) ! i = [1..int (length (range_py n))] ! i"
    by (auto simp: range_py_def sample_Document_def nth_upto)
qed

lemma scores_range_py: "sorted_wrt (\<ge>) (map (\<lambda>i. score (sample_Document i)) (range_py n))"
  unfolding sorted_wrt_map range_py_def
  by (rule sorted_wrt_mono_rel[of _ "(\<le>)"]) (simp_all add: sample_Document_def)

lemma doc_ids_range_py:
  "map (\<lambda>i. doc_id (sample_Document i)) (range_py n) = map (\<lambda>j. ''doc'' @ str_nat j) [0..<nat n]"
proof (rule nth_equalityI)
  show "length (map (\<lambda>i. doc_id (sample_Document i)) (range_py n)) =
        length (map (\<lambda>j. ''doc'' @ str_nat j) [0..<nat n])"
    by (simp add: range_py_def)
next
  fix i assume "i < length (map (\<lambda>i. doc_id (sample_Document i)) (range_py n))"
  then have i: "i < nat n" by (simp add: range_py_def)
  then show "map (\<lambda>i. doc_id (sample_Document i)) (range_py n) ! i =
             map (\<lambda>j. ''doc'' @ str_nat j) [0..<nat n] ! i"
    by (simp add: range_py_def sample_Document_def nth_upto str_int_def)
qed

lemma health_check_eq:
  "health_check env s =
     (\<lparr>status = ''healthy'',
       uptime_seconds = clock env (clock_reads s) - start_time (stats s),
       total_queries = stats.total_queries (stats s),
       avg_latency_ms = (if stats.total_queries (stats s) > 0
             then total_latency_ms (stats s) / real_of_int (stats.total_queries (stats s))
             else 0)\<rparr>,
      s\<lparr>clock_reads := Suc (clock_reads s)\<rparr>)"
  by (simp add: health_check_def time_time_def Let_def)

lemma QueryRequest_init_Inr:
  assumes "QueryRequest_init q k m = Inr request"
  shows "1 \<le> top_k request \<and> top_k request \<le> 100
       \<and> 1 \<le> length (QueryRequest.query request) \<and> length (QueryRequest.query request) \<le> 500
       \<and> q = Some (QueryRequest.query request)
       \<and> top_k request = (case k of None \<Rightarrow> 10 | Some v \<Rightarrow> v)
       \<and> QueryRequest.method request = (case m of None \<Rightarrow> ''hybrid'' | Some v \<Rightarrow> v)"
  using assms
  by (cases q)
     (auto simp: QueryRequest_init_def QueryRequest_errors_def Let_def Suc_le_eq split: if_splits)

lemma QueryRequest_init_Inl:
  assumes "q = None \<or> (\<exists>v. q = Some v \<and> (length v < 1 \<or> 500 < length v))
           \<or> (\<exists>n. k = Some n \<and> (n < 1 \<or> 100 < n))"
  shows "\<exists>fs. QueryRequest_init q k m = Inl (ValidationError fs)"
  using assms
  by (cases q) (auto simp: QueryRequest_init_def QueryRequest_errors_def Let_def)

subsection \<open>The route and evaluation\<close>

text \<open>The defining equations needed to run the model on a concrete request.\<close>

lemmas eval_defs =
  post_query_def QueryRequest_init_def QueryRequest_errors_def query_endpoint_def
  try_block_def health_check_def time_time_def init_def build_Document_def
  sample_Document_def range_py_def str_int_def str_nat.simps digit_def upto.simps Let_def
  env0_def env_back_def env_doc_fault_def env_answer_fault_def request3_def request_fuzzy_def

lemma post_query_Inl_init:
  "QueryRequest_init q k m = Inl e \<Longrightarrow> post_query env q k m s = (Inl e, s)"
  by (simp add: post_query_def)

lemma post_query_Inr_init:
  "QueryRequest_init q k m = Inr request \<Longrightarrow> post_query env q k m s = query_endpoint env request s"
  by (simp add: post_query_def)

subsection \<open>Sample runs, and the statistics under each operation\<close>

lemma request3_init:
  "QueryRequest_init (Some ''what is rag?'') (Some 3) (Some ''hybrid'') = Inr request3"
  by (simp add: QueryRequest_init_def QueryRequest_errors_def request3_def)

lemma request3_response:
  "query_endpoint env0 request3 (init env0) =
     (Inr \<lparr>QueryResponse.query = ''what is rag?'',
           answer = ''Sample answer for: what is rag?'',
           documents =
             [\<lparr>doc_id = ''doc0'', text = ''Sample document 0'', score = 9 / 10, rank = 1\<rparr>,
              \<lparr>doc_id = ''doc1'', text = ''Sample document 1'', score = 8 / 10, rank = 2\<rparr>,
              \<lparr>doc_id = ''doc2'', text = ''Sample document 2'', score = 7 / 10, rank = 3\<rparr>],
           QueryResponse.method = ''hybrid'',
           latency_ms = 1000,
           timestamp = ''2024-01-01T00:00:00''\<rparr>,
      \<lparr>stats = \<lparr>stats.total_queries = 1, total_latency_ms = 1000, start_time = 0\<rparr>,
        clock_reads = 3\<rparr>)"
  by (simp add: eval_defs)

lemma request3_response_back:
  "query_endpoint env_back request3 (init env_back) =
     (Inr \<lparr>QueryResponse.query = ''what is rag?'',
           answer = ''Sample answer for: what is rag?'',
           documents =
             [\<lparr>doc_id = ''doc0'', text = ''Sample document 0'', score = 9 / 10, rank = 1\<rparr>,
              \<lparr>doc_id = ''doc1'', text = ''Sample document 1'', score = 8 / 10, rank = 2\<rparr>,
              \<lparr>doc_id = ''doc2'', text = ''Sample document 2'', score = 7 / 10, rank = 3\<rparr>],
           QueryResponse.method = ''hybrid'',
           latency_ms = - 1000,
           timestamp = ''2024-01-01T00:00:00''\<rparr>,
      \<lparr>stats = \<lparr>stats.total_queries = 1, total_latency_ms = - 1000, start_time = 100\<rparr>,
        clock_reads = 3\<rparr>)"
  by (simp add: eval_defs)

lemma post_query_stats:
  "stats (snd (post_query env q k m s)) = stats s
   \<or> (\<exists>resp s'. post_query env q k m s = (Inr resp, s'))"
proof (cases "QueryRequest_init q k m")
  case (Inl e)
  then show ?thesis by (simp add: post_query_Inl_init)
next
  case (Inr request)
  note p = post_query_Inr_init[OF Inr, of env s]
  obtain r s' where q: "query_endpoint env request s = (r, s')"
    by (cases "query_endpoint env request s") blast
  show ?thesis
  proof (cases r)
    case (Inl e)
    with q have "stats s' = stats s" using query_endpoint_Inl by blast
    with q show ?thesis by (simp add: p)
  next
    case (Inr resp)
    with q show ?thesis by (simp add: p)
  qed
qed

lemma post_query_Inr:
  assumes "post_query env q k m s = (Inr resp, s')"
  shows "stats.total_queries (stats s') = stats.total_queries (stats s) + 1
       \<and> total_latency_ms (stats s') = total_latency_ms (stats s) + latency_ms resp
       \<and> start_time (stats s') = start_time (stats s)
       \<and> latency_ms resp = (clock env (Suc (clock_reads s)) - clock env (clock_reads s)) * 1000"
proof (cases "QueryRequest_init q k m")
  case (Inl e)
  with assms show ?thesis by (simp add: post_query_Inl_init)
next
  case (Inr request)
  with assms have "query_endpoint env request s = (Inr resp, s')"
    by (simp add: post_query_Inr_init)
  from query_endpoint_Inr[OF this] show ?thesis by simp
qed

lemma post_query_Inl:
  assumes "post_query env q k m s = (Inl e, s')"
  shows "stats s' = stats s"
  using post_query_stats[of env q k m s] assms by auto

lemma serve_total_queries:
  "stats.total_queries (stats s) \<le> stats.total_queries (stats (serve env x s))"
proof (cases x)
  case GET_root
  then show ?thesis by simp
next
  case GET_health
  then show ?thesis by (simp add: health_check_eq)
next
  case (POST_query q k m)
  from post_query_stats[of env q k m s] show ?thesis
  proof
    assume "stats (snd (post_query env q k m s)) = stats s"
    with POST_query show ?thesis by simp
  next
    assume "\<exists>resp s'. post_query env q k m s = (Inr resp, s')"
    then obtain resp s' where p: "post_query env q k m s = (Inr resp, s')" by blast
    from post_query_Inr[OF p] p POST_query show ?thesis by simp
  qed
qed

lemma serve_total_latency:
  assumes "clock env (clock_reads s) \<le> clock env (Suc (clock_reads s))"
  shows "total_latency_ms (stats s) \<le> total_latency_ms (stats (serve env x s))"
proof (cases x)
  case GET_root
  then show ?thesis by simp
next
  case GET_health
  then show ?thesis by (simp add: health_check_eq)
next
  case (POST_query q k m)
  from post_query_stats[of env q k m s] show ?thesis
  proof
    assume "stats (snd (post_query env q k m s)) = stats s"
    with POST_query show ?thesis by simp
  next
    assume "\<exists>resp s'. post_query env q k m s = (Inr resp, s')"
    then obtain resp s' where p: "post_query env q k m s = (Inr resp, s')" by blast
    from post_query_Inr[OF p] p POST_query assms show ?thesis by simp
  qed
qed

lemma run_total_queries:
  "stats.total_queries (stats s) \<le> stats.total_queries (stats (run env xs s))"
proof (induction xs arbitrary: s)
  case Nil
  show ?case by simp
next
  case (Cons x xs)
  have "stats.total_queries (stats s) \<le> stats.total_queries (stats (serve env x s))"
    by (rule serve_total_queries)
  also have "\<dots> \<le> stats.total_queries (stats (run env xs (serve env x s)))"
    by (rule Cons.IH)
  finally show ?case by simp
qed

lemma run_total_latency:
  assumes "\<forall>n. clock env n \<le> clock env (Suc n)"
  shows "total_latency_ms (stats s) \<le> total_latency_ms (stats (run env xs s))"
proof (induction xs arbitrary: s)
  case Nil
  show ?case by simp
next
  case (Cons x xs)
  have "total_latency_ms (stats s) \<le> total_latency_ms (stats (serve env x s))"
    using assms by (simp add: serve_total_latency)
  also have "\<dots> \<le> total_latency_ms (stats (run env xs (serve env x s)))"
    by (rule Cons.IH)
  finally show ?case by simp
qed

section \<open>The claims\<close>

text \<open>
  C1. The claim: a \<open>POST /query\<close> whose method is none of sparse, dense, hybrid gets a
  client error (status 400) and leaves \<open>total_queries\<close> and \<open>total_latency_ms\<close>
  unchanged. The handler raises \<open>HTTPException(400)\<close> inside its own \<open>try\<close> block,
  and its \<open>except Exception\<close> catches that exception and raises status 500 instead. For
  the request with method \<open>"fuzzy"\<close>, in every environment and state, the caller
  receives status 500, with the rendering of the 400 exception in the detail; the state
  changes by one clock reading only, so the counters are unchanged.
\<close>

theorem C1_invalid_method_reported_as_500:
  "post_query env (Some ''what is rag?'') (Some 3) (Some ''fuzzy'') s =
     (Inl (HTTPException 500
        (''Internal server error: '' @
         str env (HTTPException 400 ''Invalid method. Use: sparse, dense, or hybrid''))),
      s\<lparr>clock_reads := Suc (clock_reads s)\<rparr>)"
  by (simp add: post_query_def QueryRequest_init_def QueryRequest_errors_def
      query_endpoint_def try_block_def time_time_def)

text \<open>
  C2, as stated: every request that fails validation is rejected before the latency timer
  is started. For an invalid method this is false: \<open>start_time = time.time()\<close> is the
  first statement of the handler, so the clock has been read when the method is checked.
\<close>

theorem C2_timer_started_before_method_check:
  "QueryRequest.method request_fuzzy \<notin> set [''sparse'', ''dense'', ''hybrid'']
   \<and> isl (fst (post_query env0 (Some ''what is rag?'') (Some 3) (Some ''fuzzy'') (init env0)))
   \<and> clock_reads (snd (post_query env0 (Some ''what is rag?'') (Some 3) (Some ''fuzzy'') (init env0)))
       \<noteq> clock_reads (init env0)"
  by (simp add: eval_defs)

text \<open>
  C2, amended. A request with a missing, empty or over-long query, or with \<open>top_k\<close>
  outside 1..100, is rejected by the request model: the handler does not run, the clock is
  not read and the state is unchanged. A request with an invalid method is rejected inside
  the handler: the result is an error and the statistics are unchanged, but the clock has
  been read once (the timer is started).
\<close>

theorem C2_validation_errors:
  "(q = None \<or> (\<exists>v. q = Some v \<and> (length v < 1 \<or> 500 < length v))
      \<or> (\<exists>n. k = Some n \<and> (n < 1 \<or> 100 < n))
    \<longrightarrow> (\<exists>fs. post_query env q k m s = (Inl (ValidationError fs), s)))
   \<and> (QueryRequest_init q k m = Inr request
        \<and> QueryRequest.method request \<notin> set [''sparse'', ''dense'', ''hybrid'']
    \<longrightarrow> isl (fst (post_query env q k m s))
        \<and> stats (snd (post_query env q k m s)) = stats s
        \<and> clock_reads (snd (post_query env q k m s)) = Suc (clock_reads s))"
proof (intro conjI impI)
  assume "q = None \<or> (\<exists>v. q = Some v \<and> (length v < 1 \<or> 500 < length v))
      \<or> (\<exists>n. k = Some n \<and> (n < 1 \<or> 100 < n))"
  then obtain fs where "QueryRequest_init q k m = Inl (ValidationError fs)"
    using QueryRequest_init_Inl by blast
  then have "post_query env q k m s = (Inl (ValidationError fs), s)"
    by (rule post_query_Inl_init)
  then show "\<exists>fs. post_query env q k m s = (Inl (ValidationError fs), s)" ..
next
  assume a: "QueryRequest_init q k m = Inr request
        \<and> QueryRequest.method request \<notin> set [''sparse'', ''dense'', ''hybrid'']"
  then have p: "post_query env q k m s = query_endpoint env request s"
    by (simp only: post_query_Inr_init)
  note q = query_endpoint_invalid_method[OF conjunct2[OF a], of env s]
  show "isl (fst (post_query env q k m s))" unfolding p q by simp
  show "stats (snd (post_query env q k m s)) = stats s" unfolding p q by simp
  show "clock_reads (snd (post_query env q k m s)) = Suc (clock_reads s)" unfolding p q by simp
qed

text \<open>Witness for C2: an empty query, \<open>top_k = 0\<close>, and the method \<open>"fuzzy"\<close>.\<close>

theorem C2_validation_errors_witness:
  "(\<exists>fs. post_query env0 (Some '''') None None (init env0) = (Inl (ValidationError fs), init env0))
   \<and> (\<exists>fs. post_query env0 (Some ''what is rag?'') (Some 0) None (init env0)
              = (Inl (ValidationError fs), init env0))
   \<and> QueryRequest_init (Some ''what is rag?'') (Some 3) (Some ''fuzzy'') = Inr request_fuzzy
   \<and> isl (fst (post_query env0 (Some ''what is rag?'') (Some 3) (Some ''fuzzy'') (init env0)))
   \<and> stats (snd (post_query env0 (Some ''what is rag?'') (Some 3) (Some ''fuzzy'') (init env0)))
        = stats (init env0)
   \<and> clock_reads (snd (post_query env0 (Some ''what is rag?'') (Some 3) (Some ''fuzzy'') (init env0)))
        = Suc (clock_reads (init env0))"
proof -
  have h1: "Some '''' = None \<or> (\<exists>v. Some '''' = Some v \<and> (length v < 1 \<or> 500 < length v))
      \<or> (\<exists>n. (None :: int option) = Some n \<and> (n < 1 \<or> 100 < n))"
    by simp
  have h2: "Some ''what is rag?'' = None
      \<or> (\<exists>v. Some ''what is rag?'' = Some v \<and> (length v < 1 \<or> 500 < length v))
      \<or> (\<exists>n. Some (0::int) = Some n \<and> (n < 1 \<or> 100 < n))"
    by simp
  have h3: "QueryRequest_init (Some ''what is rag?'') (Some 3) (Some ''fuzzy'') = Inr request_fuzzy
      \<and> QueryRequest.method request_fuzzy \<notin> set [''sparse'', ''dense'', ''hybrid'']"
    by (simp add: eval_defs)
  note t1 = C2_validation_errors[of "Some ''''" None env0 None "init env0", THEN conjunct1, THEN mp, OF h1]
  note t2 = C2_validation_errors[of "Some ''what is rag?''" "Some 0" env0 None "init env0",
      THEN conjunct1, THEN mp, OF h2]
  note t3 = C2_validation_errors[of _ _ env0 _ "init env0", THEN conjunct2, THEN mp, OF h3]
  from t1 t2 t3 h3 show ?thesis by blast
qed

text \<open>
  C3. When building one of the documents or generating the answer raises, the request ends
  with an error response (status 500, from the \<open>except\<close> clause) and the statistics are
  as they were before the request.
\<close>

theorem C3_failed_request_not_recorded:
  assumes "(\<exists>i \<in> set (range_py (top_k request)). Document_raises env i \<noteq> None)
           \<or> answer_raises env \<noteq> None"
  shows "(\<exists>d. fst (query_endpoint env request s) = Inl (HTTPException 500 d))
         \<and> stats (snd (query_endpoint env request s)) = stats s"
proof -
  obtain e where "fst (query_endpoint env request s) = Inl e"
    using query_endpoint_raises[OF assms] by (rule exE)
  then have q: "query_endpoint env request s = (Inl e, snd (query_endpoint env request s))"
    by (simp add: prod_eq_iff)
  from query_endpoint_Inl[OF q] obtain d where "e = HTTPException 500 d"
    and "stats (snd (query_endpoint env request s)) = stats s"
    by blast
  with \<open>fst (query_endpoint env request s) = Inl e\<close> show ?thesis by simp
qed

text \<open>Witness for C3: document 1 raises; the answer generation raises.\<close>

theorem C3_failed_request_not_recorded_witness:
  "(\<exists>i \<in> set (range_py (top_k request3)). Document_raises env_doc_fault i \<noteq> None)
   \<and> (\<exists>d. fst (query_endpoint env_doc_fault request3 (init env_doc_fault)) = Inl (HTTPException 500 d))
   \<and> stats (snd (query_endpoint env_doc_fault request3 (init env_doc_fault))) = stats (init env_doc_fault)
   \<and> answer_raises env_answer_fault \<noteq> None
   \<and> (\<exists>d. fst (query_endpoint env_answer_fault request3 (init env_answer_fault)) = Inl (HTTPException 500 d))
   \<and> stats (snd (query_endpoint env_answer_fault request3 (init env_answer_fault)))
        = stats (init env_answer_fault)"
proof -
  have h1: "\<exists>i \<in> set (range_py (top_k request3)). Document_raises env_doc_fault i \<noteq> None"
    by (simp add: range_py_def request3_def env_doc_fault_def env0_def upto.simps)
  have h2: "answer_raises env_answer_fault \<noteq> None"
    by (simp add: env_answer_fault_def env0_def)
  note t1 = C3_failed_request_not_recorded[where request = request3 and env = env_doc_fault
      and s = "init env_doc_fault", OF disjI1, OF h1]
  note t2 = C3_failed_request_not_recorded[where request = request3 and env = env_answer_fault
      and s = "init env_answer_fault", OF disjI2, OF h2]
  from h1 h2 t1 t2 show ?thesis by blast
qed

text \<open>
  C4. The average latency reported by \<open>health_check\<close> is \<open>total_latency_ms\<close> divided
  by \<open>total_queries\<close> when \<open>total_queries > 0\<close>, and 0 when \<open>total_queries = 0\<close>.
\<close>

theorem C4_health_average:
  "(0 < stats.total_queries (stats s) \<longrightarrow>
      avg_latency_ms (fst (health_check env s))
        = total_latency_ms (stats s) / real_of_int (stats.total_queries (stats s)))
   \<and> (stats.total_queries (stats s) = 0 \<longrightarrow> avg_latency_ms (fst (health_check env s)) = 0)"
  by (simp add: health_check_eq)

text \<open>Witness for C4: after one successful query, and at start-up.\<close>

theorem C4_health_average_witness:
  "0 < stats.total_queries (stats (snd (query_endpoint env0 request3 (init env0))))
   \<and> avg_latency_ms (fst (health_check env0 (snd (query_endpoint env0 request3 (init env0))))) = 1000
   \<and> stats.total_queries (stats (init env0)) = 0
   \<and> avg_latency_ms (fst (health_check env0 (init env0))) = 0"
proof -
  let ?s = "snd (query_endpoint env0 request3 (init env0))"
  have s: "stats ?s = \<lparr>stats.total_queries = 1, total_latency_ms = 1000, start_time = 0\<rparr>"
    by (simp add: eval_defs)
  have h1: "0 < stats.total_queries (stats ?s)" by (simp add: s)
  have h2: "stats.total_queries (stats (init env0)) = 0" by (simp add: eval_defs)
  note t1 = C4_health_average[where s = ?s and env = env0, THEN conjunct1, THEN mp, OF h1]
  note t2 = C4_health_average[where s = "init env0" and env = env0, THEN conjunct2, THEN mp, OF h2]
  from h1 h2 t1 t2 show ?thesis by (simp add: s)
qed

text \<open>
  C5. A request accepted by the request model, whose handler returns a response, gets at
  most \<open>top_k\<close> documents.
\<close>

theorem C5_documents_at_most_top_k:
  assumes "QueryRequest_init q k m = Inr request"
    and "post_query env q k m s = (Inr resp, s')"
  shows "int (length (documents resp)) \<le> top_k request"
proof -
  have "query_endpoint env request s = (Inr resp, s')"
    using assms by (simp only: post_query_Inr_init)
  then have "documents resp = map sample_Document (range_py (top_k request))"
    using query_endpoint_Inr by blast
  moreover have "1 \<le> top_k request"
    using QueryRequest_init_Inr[OF assms(1)] by blast
  ultimately show ?thesis
    by (simp add: length_range_py)
qed

text \<open>Witness for C5: the query "what is rag?" with \<open>top_k = 3\<close>.\<close>

theorem C5_documents_at_most_top_k_witness:
  "QueryRequest_init (Some ''what is rag?'') (Some 3) (Some ''hybrid'') = Inr request3
   \<and> (\<exists>resp s'. post_query env0 (Some ''what is rag?'') (Some 3) (Some ''hybrid'') (init env0)
                   = (Inr resp, s')
                 \<and> int (length (documents resp)) \<le> top_k request3)"
proof -
  have p: "post_query env0 (Some ''what is rag?'') (Some 3) (Some ''hybrid'') (init env0)
            = query_endpoint env0 request3 (init env0)"
    using request3_init by (rule post_query_Inr_init)
  note r = p[unfolded request3_response]
  from C5_documents_at_most_top_k[OF request3_init r] request3_init r
  show ?thesis by blast
qed

text \<open>
  C6. In every returned list of documents the scores never increase along the list, and
  the ranks are exactly \<open>1, 2, \<dots>, len(documents)\<close>.
\<close>

theorem C6_scores_nonincreasing_ranks_consecutive:
  assumes "query_endpoint env request s = (Inr resp, s')"
  shows "sorted_wrt (\<ge>) (map score (documents resp))
         \<and> map rank (documents resp) = [1..int (length (documents resp))]"
proof -
  have d: "documents resp = map sample_Document (range_py (top_k request))"
    using query_endpoint_Inr[OF assms] by blast
  have "map score (documents resp) = map (\<lambda>i. score (sample_Document i)) (range_py (top_k request))"
    by (simp add: d)
  then have 1: "sorted_wrt (\<ge>) (map score (documents resp))"
    by (simp only: scores_range_py)
  have "map rank (documents resp) = map (\<lambda>i. rank (sample_Document i)) (range_py (top_k request))"
    by (simp add: d)
  also have "\<dots> = [1..int (length (range_py (top_k request)))]"
    by (rule ranks_range_py)
  also have "length (range_py (top_k request)) = length (documents resp)"
    by (simp add: d)
  finally show ?thesis using 1 by simp
qed

text \<open>Witness for C6: three documents with scores 0.9, 0.8, 0.7 and ranks 1, 2, 3.\<close>

theorem C6_scores_nonincreasing_ranks_consecutive_witness:
  "\<exists>resp s'. query_endpoint env0 request3 (init env0) = (Inr resp, s')
      \<and> map score (documents resp) = [9 / 10, 8 / 10, 7 / 10]
      \<and> sorted_wrt (\<ge>) (map score (documents resp))
      \<and> map rank (documents resp) = [1, 2, 3]
      \<and> map rank (documents resp) = [1..int (length (documents resp))]"
proof -
  note t = C6_scores_nonincreasing_ranks_consecutive[OF request3_response]
  show ?thesis
    apply (rule exI, rule exI)
    apply (rule conjI, rule request3_response)
    using t by simp
qed

text \<open>
  C7. Two requests with the same query, \<open>top_k\<close> and method that both return a response
  return the same document identifiers and the same scores, whatever the clock, the
  statistics and the rest of the environment are at each of the two calls.
\<close>

theorem C7_retrieval_deterministic:
  assumes "QueryRequest.query r1 = QueryRequest.query r2"
    and "top_k r1 = top_k r2"
    and "QueryRequest.method r1 = QueryRequest.method r2"
    and "query_endpoint env1 r1 s1 = (Inr resp1, s1')"
    and "query_endpoint env2 r2 s2 = (Inr resp2, s2')"
  shows "map doc_id (documents resp1) = map doc_id (documents resp2)
         \<and> map score (documents resp1) = map score (documents resp2)
         \<and> documents resp1 = documents resp2"
proof -
  have "documents resp1 = map sample_Document (range_py (top_k r1))"
    using query_endpoint_Inr[OF assms(4)] by blast
  moreover have "documents resp2 = map sample_Document (range_py (top_k r2))"
    using query_endpoint_Inr[OF assms(5)] by blast
  ultimately show ?thesis
    using assms(2) by simp
qed

text \<open>
  Witness for C7: the same request under two different clocks; the latencies differ, the
  documents do not.
\<close>

theorem C7_retrieval_deterministic_witness:
  "\<exists>resp1 s1' resp2 s2'.
      query_endpoint env0 request3 (init env0) = (Inr resp1, s1')
    \<and> query_endpoint env_back request3 (init env_back) = (Inr resp2, s2')
    \<and> latency_ms resp1 \<noteq> latency_ms resp2
    \<and> map doc_id (documents resp1) = map doc_id (documents resp2)
    \<and> map score (documents resp1) = map score (documents resp2)"
proof -
  note t = C7_retrieval_deterministic[OF refl refl refl request3_response request3_response_back]
  show ?thesis
    apply (intro exI conjI)
        apply (rule request3_response)
       apply (rule request3_response_back)
      apply simp
    using t by simp_all
qed

text \<open>
  C8, as stated: no operation decreases \<open>total_latency_ms\<close>, each successful query adds
  a non-negative latency. The latency is the difference of two readings of
  \<open>time.time()\<close>, the wall clock; when the clock is set back between the two readings the
  latency is negative and the total decreases.
\<close>

theorem C8_latency_total_can_decrease:
  "total_latency_ms (stats (serve env_back
       (POST_query (Some ''what is rag?'') (Some 3) (Some ''hybrid'')) (init env_back)))
     < total_latency_ms (stats (init env_back))"
  by (simp add: eval_defs)

text \<open>
  C8, amended. \<open>total_queries\<close> never decreases over any sequence of operations.
  A successful query adds exactly 1 to \<open>total_queries\<close> and adds its latency, the
  difference of the two clock readings times 1000, to \<open>total_latency_ms\<close>; that latency is
  non-negative when the second reading is not earlier than the first. A failed query, the
  root endpoint and the health check leave the statistics unchanged. Hence, when the clock
  never goes back, \<open>total_latency_ms\<close> never decreases over any sequence of operations.
\<close>

theorem C8_counters_monotone:
  "stats.total_queries (stats s) \<le> stats.total_queries (stats (run env xs s))
   \<and> ((\<forall>n. clock env n \<le> clock env (Suc n)) \<longrightarrow>
        total_latency_ms (stats s) \<le> total_latency_ms (stats (run env xs s)))
   \<and> (post_query env q k m s = (Inr resp, s') \<longrightarrow>
        stats.total_queries (stats s') = stats.total_queries (stats s) + 1
        \<and> total_latency_ms (stats s') = total_latency_ms (stats s) + latency_ms resp
        \<and> latency_ms resp = (clock env (Suc (clock_reads s)) - clock env (clock_reads s)) * 1000
        \<and> (clock env (clock_reads s) \<le> clock env (Suc (clock_reads s)) \<longrightarrow> 0 \<le> latency_ms resp))
   \<and> (post_query env q k m s = (Inl e, s') \<longrightarrow> stats s' = stats s)
   \<and> stats (serve env GET_root s) = stats s
   \<and> stats (serve env GET_health s) = stats s"
proof (intro conjI impI)
  show "stats.total_queries (stats s) \<le> stats.total_queries (stats (run env xs s))"
    by (rule run_total_queries)
  show "total_latency_ms (stats s) \<le> total_latency_ms (stats (run env xs s))"
    if "\<forall>n. clock env n \<le> clock env (Suc n)"
    using that by (rule run_total_latency)
  show "stats s' = stats s" if "post_query env q k m s = (Inl e, s')"
    using that by (rule post_query_Inl)
  show "stats (serve env GET_root s) = stats s" by simp
  show "stats (serve env GET_health s) = stats s" by (simp add: health_check_eq)
next
  assume p: "post_query env q k m s = (Inr resp, s')"
  note r = post_query_Inr[OF p]
  show "stats.total_queries (stats s') = stats.total_queries (stats s) + 1" using r by blast
  show "total_latency_ms (stats s') = total_latency_ms (stats s) + latency_ms resp" using r by blast
  show l: "latency_ms resp = (clock env (Suc (clock_reads s)) - clock env (clock_reads s)) * 1000"
    using r by blast
  show "0 \<le> latency_ms resp" if "clock env (clock_reads s) \<le> clock env (Suc (clock_reads s))"
    using that by (simp add: l)
qed

text \<open>
  Witness for C8: a clock that advances, a run of three operations, a successful and a
  failed query.
\<close>

theorem C8_counters_monotone_witness:
  "(\<forall>n. clock env0 n \<le> clock env0 (Suc n))
   \<and> total_latency_ms (stats (init env0))
       \<le> total_latency_ms (stats (run env0
            [GET_health, POST_query (Some ''what is rag?'') (Some 3) (Some ''hybrid''), GET_root]
            (init env0)))
   \<and> (\<exists>resp s'. post_query env0 (Some ''what is rag?'') (Some 3) (Some ''hybrid'') (init env0)
                   = (Inr resp, s')
        \<and> stats.total_queries (stats s') = stats.total_queries (stats (init env0)) + 1
        \<and> total_latency_ms (stats s') = total_latency_ms (stats (init env0)) + latency_ms resp
        \<and> 0 \<le> latency_ms resp)
   \<and> (\<exists>e s'. post_query env0 (Some ''what is rag?'') (Some 3) (Some ''fuzzy'') (init env0)
                   = (Inl e, s')
        \<and> stats s' = stats (init env0))"
proof -
  have h1: "\<forall>n. clock env0 n \<le> clock env0 (Suc n)"
    by (simp add: env0_def)
  have h2: "clock env0 (clock_reads (init env0)) \<le> clock env0 (Suc (clock_reads (init env0)))"
    using h1 by blast
  have p: "post_query env0 (Some ''what is rag?'') (Some 3) (Some ''hybrid'') (init env0)
            = query_endpoint env0 request3 (init env0)"
    using request3_init by (rule post_query_Inr_init)
  note h3 = p[unfolded request3_response]
  obtain e s' where h4:
    "post_query env0 (Some ''what is rag?'') (Some 3) (Some ''fuzzy'') (init env0) = (Inl e, s')"
    by (simp add: eval_defs)
  note a = C8_counters_monotone[where env = env0 and s = "init env0" and
      xs = "[GET_health, POST_query (Some ''what is rag?'') (Some 3) (Some ''hybrid''), GET_root]"]
  note t1 = a[THEN conjunct2, THEN conjunct1, THEN mp, OF h1]
  note t2 = C8_counters_monotone[where env = env0 and s = "init env0", THEN conjunct2,
      THEN conjunct2, THEN conjunct1, THEN mp, OF h3]
  note t3 = C8_counters_monotone[where env = env0 and s = "init env0", THEN conjunct2,
      THEN conjunct2, THEN conjunct2, THEN conjunct1, THEN mp, OF h4]
  from t2 h2 have t2': "0 \<le> latency_ms
     \<lparr>QueryResponse.query = ''what is rag?'',
           answer = ''Sample answer for: what is rag?'',
           documents =
             [\<lparr>doc_id = ''doc0'', text = ''Sample document 0'', score = 9 / 10, rank = 1\<rparr>,
              \<lparr>doc_id = ''doc1'', text = ''Sample document 1'', score = 8 / 10, rank = 2\<rparr>,
              \<lparr>doc_id = ''doc2'', text = ''Sample document 2'', score = 7 / 10, rank = 3\<rparr>],
           QueryResponse.method = ''hybrid'',
           latency_ms = 1000,
           timestamp = ''2024-01-01T00:00:00''\<rparr>"
    by blast
  from h1 t1 h3 t2 t2' h4 t3 show ?thesis by blast
qed

text \<open>
  C9. For a request accepted by the request model, every response carries exactly
  \<open>top_k\<close> documents, with the identifiers \<open>doc0, \<dots>, doc(top_k - 1)\<close> in this order;
  and when the method is valid and nothing raises, the handler does return a response.
\<close>

theorem C9_documents_exactly_top_k:
  assumes "QueryRequest_init q k m = Inr request"
  shows "(\<forall>resp s'. post_query env q k m s = (Inr resp, s') \<longrightarrow>
            int (length (documents resp)) = top_k request
            \<and> map doc_id (documents resp)
                = map (\<lambda>j. ''doc'' @ str_nat j) [0..<nat (top_k request)])
         \<and> (QueryRequest.method request \<in> set [''sparse'', ''dense'', ''hybrid'']
              \<and> (\<forall>i. Document_raises env i = None) \<and> answer_raises env = None
            \<longrightarrow> (\<exists>resp s'. post_query env q k m s = (Inr resp, s')))"
proof (intro conjI allI impI)
  fix resp s'
  assume "post_query env q k m s = (Inr resp, s')"
  then have "query_endpoint env request s = (Inr resp, s')"
    using assms by (simp only: post_query_Inr_init)
  then have d: "documents resp = map sample_Document (range_py (top_k request))"
    using query_endpoint_Inr by blast
  have k: "1 \<le> top_k request"
    using QueryRequest_init_Inr[OF assms] by blast
  show "int (length (documents resp)) = top_k request"
    using k by (simp add: d length_range_py)
  have "map doc_id (documents resp) = map (\<lambda>i. doc_id (sample_Document i)) (range_py (top_k request))"
    by (simp add: d)
  then show "map doc_id (documents resp) = map (\<lambda>j. ''doc'' @ str_nat j) [0..<nat (top_k request)]"
    by (simp only: doc_ids_range_py)
next
  assume "QueryRequest.method request \<in> set [''sparse'', ''dense'', ''hybrid'']
              \<and> (\<forall>i. Document_raises env i = None) \<and> answer_raises env = None"
  then have "\<exists>resp s'. query_endpoint env request s = (Inr resp, s')"
    using query_endpoint_returns by blast
  then show "\<exists>resp s'. post_query env q k m s = (Inr resp, s')"
    using assms by (simp only: post_query_Inr_init)
qed

text \<open>Witness for C9: \<open>top_k = 3\<close> gives doc0, doc1, doc2.\<close>

theorem C9_documents_exactly_top_k_witness:
  "QueryRequest_init (Some ''what is rag?'') (Some 3) (Some ''hybrid'') = Inr request3
   \<and> (\<exists>resp s'. post_query env0 (Some ''what is rag?'') (Some 3) (Some ''hybrid'') (init env0)
                   = (Inr resp, s')
        \<and> int (length (documents resp)) = top_k request3
        \<and> map doc_id (documents resp) = [''doc0'', ''doc1'', ''doc2''])"
proof -
  have h: "QueryRequest.method request3 \<in> set [''sparse'', ''dense'', ''hybrid'']
              \<and> (\<forall>i. Document_raises env0 i = None) \<and> answer_raises env0 = None"
    by (simp add: request3_def env0_def)
  note a = C9_documents_exactly_top_k[OF request3_init, where env = env0 and s = "init env0"]
  from a[THEN conjunct2, THEN mp, OF h] obtain resp s' where
    p: "post_query env0 (Some ''what is rag?'') (Some 3) (Some ''hybrid'') (init env0) = (Inr resp, s')"
    by blast
  from a[THEN conjunct1, THEN spec, THEN spec, THEN mp, OF p]
  have l: "int (length (documents resp)) = top_k request3"
    and i: "map doc_id (documents resp) = map (\<lambda>j. ''doc'' @ str_nat j) [0..<nat (top_k request3)]"
    by blast+
  have "map (\<lambda>j. ''doc'' @ str_nat j) [0..<nat (top_k request3)] = [''doc0'', ''doc1'', ''doc2'']"
    by (simp add: request3_def upt_rec str_nat.simps digit_def)
  with i have d: "map doc_id (documents resp) = [''doc0'', ''doc1'', ''doc2'']" by simp
  have "\<exists>resp s'. post_query env0 (Some ''what is rag?'') (Some 3) (Some ''hybrid'') (init env0)
                   = (Inr resp, s')
        \<and> int (length (documents resp)) = top_k request3
        \<and> map doc_id (documents resp) = [''doc0'', ''doc1'', ''doc2'']"
    using p l d by (intro exI conjI)
  with request3_init show ?thesis by (rule conjI)
qed

text \<open>
  C10. \<open>health_check\<close> does not modify \<open>stats\<close>: \<open>total_queries\<close>,
  \<open>total_latency_ms\<close> and \<open>start_time\<close> are the same after the call as before.
\<close>

theorem C10_health_check_frame:
  "stats (snd (health_check env s)) = stats s
   \<and> stats.total_queries (stats (snd (health_check env s))) = stats.total_queries (stats s)
   \<and> total_latency_ms (stats (snd (health_check env s))) = total_latency_ms (stats s)
   \<and> start_time (stats (snd (health_check env s))) = start_time (stats s)"
  by (simp add: health_check_eq)

end
